theory Spec2Isabelle
  imports Main "HOL-Library.Sublist"
begin

section \<open>The interview workflow of tool.py\<close>

text \<open>
  The module builds a two-node LangGraph workflow over a conversation state and exposes
  one entry point, \<open>run_agent\<close>. The language model behind \<open>question_generator\<close> and
  \<open>report_generator\<close> is external: it is a parameter of the model, a pair of functions
  from the prompt to either the exception it raises or the structured value it returns.
  Every run records a trace: which node ran on which state, and which generator was
  called with which prompt.
\<close>

subsection \<open>Errors\<close>

text \<open>
  \<open>ValueError\<close> is what the module raises itself when the API key is missing,
  \<open>IndexError\<close> what \<open>state['messages'][-1]\<close> raises on an empty list,
  \<open>GraphRecursionError\<close> what the graph runtime raises past its step limit, and
  \<open>ProviderError\<close> stands for any exception coming out of the generation client.
\<close>

datatype error =
    ValueError string
  | IndexError
  | GraphRecursionError
  | ProviderError string

subsection \<open>Messages, state and structured outputs\<close>

record BaseMessage =
  msg_type :: string
  content :: string

definition HumanMessage :: "string \<Rightarrow> BaseMessage" where
  "HumanMessage c = \<lparr>msg_type = ''human'', content = c\<rparr>"

record InterviewState =
  messages :: "BaseMessage list"
  turn :: int

record QueryDetails =
  probing_questions :: "string list"

record Report =
  report_text :: string

text \<open>
  A node returns a dictionary holding some of the state's keys; a key that is absent is
  \<open>None\<close>.
\<close>

record StateUpdate =
  upd_messages :: "BaseMessage list option"
  upd_turn :: "int option"

text \<open>
  The reducer annotated on \<open>messages\<close> is \<open>lambda x, y: x + y\<close>; \<open>turn\<close> has no reducer,
  so a write replaces the value. \<open>apply_writes\<close> is how the graph runtime folds a node's
  return value into the state.
\<close>

definition messages_reducer :: "BaseMessage list \<Rightarrow> BaseMessage list \<Rightarrow> BaseMessage list" where
  "messages_reducer x y = x @ y"

definition apply_writes :: "InterviewState \<Rightarrow> StateUpdate \<Rightarrow> InterviewState" where
  "apply_writes s u =
     \<lparr>messages = (case upd_messages u of None \<Rightarrow> messages s
                    | Some y \<Rightarrow> messages_reducer (messages s) y),
      turn = (case upd_turn u of None \<Rightarrow> turn s | Some t \<Rightarrow> t)\<rparr>"

subsection \<open>The generation client and the trace\<close>

record llm =
  question_generator :: "string \<Rightarrow> error + QueryDetails"
  report_generator :: "string \<Rightarrow> error + Report"

datatype node = start_interview | generate_report | END

datatype generator = QuestionGenerator | ReportGenerator

datatype event =
    NodeRun node InterviewState
  | GenCall generator string

fun nodes_run :: "event list \<Rightarrow> (node \<times> InterviewState) list" where
  "nodes_run [] = []"
| "nodes_run (NodeRun n s # es) = (n, s) # nodes_run es"
| "nodes_run (GenCall g p # es) = nodes_run es"

fun generation_calls :: "event list \<Rightarrow> (generator \<times> string) list" where
  "generation_calls [] = []"
| "generation_calls (NodeRun n s # es) = generation_calls es"
| "generation_calls (GenCall g p # es) = (g, p) # generation_calls es"

subsection \<open>String formatting\<close>

text \<open>\<open>str\<close> of a non-negative integer, as an f-string renders \<open>{i+1}\<close>.\<close>

fun str_nat :: "nat \<Rightarrow> string" where
  "str_nat n =
     (if n < 10 then [char_of (48 + n)]
      else str_nat (n div 10) @ [char_of (48 + n mod 10)])"

text \<open>\<open>sep.join(xs)\<close>.\<close>

fun str_join :: "string \<Rightarrow> string list \<Rightarrow> string" where
  "str_join sep [] = []"
| "str_join sep [x] = x"
| "str_join sep (x # y # ys) = x @ sep @ str_join sep (y # ys)"


subsection \<open>Module initialisation\<close>

text \<open>
  The argument is the result of \<open>os.getenv("GOOGLE_API_KEY")\<close>; \<open>not api_key\<close> holds for
  \<open>None\<close> and for the empty string. On success the module goes on to build the client
  with the key.
\<close>

definition module_init :: "string option \<Rightarrow> error + string" where
  "module_init api_key =
     (case api_key of
        None \<Rightarrow> Inl (ValueError ''GOOGLE_API_KEY environment variable not set.'')
      | Some k \<Rightarrow>
          if k = [] then Inl (ValueError ''GOOGLE_API_KEY environment variable not set.'')
          else Inr k)"

subsection \<open>The two nodes\<close>

definition start_prompt :: "string \<Rightarrow> string" where
  \<open>start_prompt initial_query =
     ''\<newline>    You are an expert legal consultant AI specializing in the **Indian legal framework**. '' @
     ''\<newline>    A user has a query regarding a legal matter in India. Your task is to generate 3-4 highly specific, probing questions to gather the necessary details. '' @
     ''\<newline>    These questions must be framed to elicit information relevant to Indian laws, such as:'' @
     ''\<newline>    - The specific state or territory in India where the issue occurred (as laws can vary).'' @
     ''\<newline>    - The nature of the parties involved (e.g., individuals, companies, government bodies).'' @
     ''\<newline>    - Key dates and a timeline of events.'' @
     ''\<newline>    - The existence of any written agreements, contracts, or official documents.'' @
     ''\<newline>'' @
     ''\<newline>    User's query: '' @
     [CHR 0x22] @
     initial_query @
     [CHR 0x22] @
     ''\<newline>'' @
     ''\<newline>    Generate questions that will help you provide a detailed analysis based on relevant Indian Acts (e.g., Indian Penal Code, Contract Act, 1872, Information Technology Act, 2000, etc.).'' @
     ''\<newline>    ''\<close>

definition question_messages :: "string list \<Rightarrow> BaseMessage list" where
  "question_messages qs =
     map (\<lambda>(i, q). HumanMessage (''Question '' @ str_nat (i + 1) @ '': '' @ q)) (enumerate 0 qs)"

definition system_message :: BaseMessage where
  "system_message = HumanMessage ''Please answer the questions above to the best of your ability. I will generate a report once I have your answers.''"

definition start_node :: "llm \<Rightarrow> InterviewState \<Rightarrow> event list \<times> (error + StateUpdate)" where
  "start_node env state =
     (case messages state of
        [] \<Rightarrow> ([], Inl IndexError)
      | _ # _ \<Rightarrow>
          let initial_query = content (last (messages state));
              prompt = start_prompt initial_query
          in (case question_generator env prompt of
                Inl e \<Rightarrow> ([GenCall QuestionGenerator prompt], Inl e)
              | Inr questions_structured \<Rightarrow>
                  ([GenCall QuestionGenerator prompt],
                   Inr \<lparr>upd_messages =
                          Some (question_messages (probing_questions questions_structured)
                                @ [system_message]),
                        upd_turn = Some 1\<rparr>)))"

definition conversation_history :: "BaseMessage list \<Rightarrow> string" where
  "conversation_history ms =
     str_join ''\<newline>'' (map (\<lambda>msg. msg_type msg @ '': '' @ content msg) ms)"

definition report_prompt :: "string \<Rightarrow> string" where
  \<open>report_prompt history =
     ''\<newline>    You are a Legal Expert AI specializing in **Indian Law**. You have gathered information from a user.'' @
     ''\<newline>    Your task is to generate a comprehensive, well-documented report based on the entire conversation. The report must be structured with the following sections:'' @
     ''\<newline>    '' @
     ''\<newline>    1.  **Summary of Facts:** Briefly outline the user's situation based on the information provided.'' @
     ''\<newline>    2.  **Applicable Indian Legal Provisions:** Identify and cite relevant Acts and sections of Indian law (e.g., Section 420 of the Indian Penal Code, 1860; Section 17 of the Indian Contract Act, 1872).'' @
     ''\<newline>    3.  **Legal Analysis:** Analyze the situation in the context of the identified laws. Explain how the law applies to the user's facts and discuss potential legal arguments.'' @
     ''\<newline>    4.  **Preliminary Opinion & Next Steps:** Provide a preliminary opinion on the matter. Suggest practical next steps the user could consider, such as mediation, sending a legal notice, or consulting with a lawyer registered with the Bar Council of India.'' @
     ''\<newline>    5.  **Disclaimer:** Conclude with a clear disclaimer that this report is for informational purposes only and does not constitute legal advice from a licensed advocate.'' @
     ''\<newline>'' @
     ''\<newline>    Conversation History:'' @
     ''\<newline>    ---'' @
     ''\<newline>    '' @
     history @
     ''\<newline>    ---'' @
     ''\<newline>'' @
     ''\<newline>    Generate the final, structured report.'' @
     ''\<newline>    ''\<close>

definition report_node :: "llm \<Rightarrow> InterviewState \<Rightarrow> event list \<times> (error + StateUpdate)" where
  "report_node env state =
     (let prompt = report_prompt (conversation_history (messages state))
      in (case report_generator env prompt of
            Inl e \<Rightarrow> ([GenCall ReportGenerator prompt], Inl e)
          | Inr report_structured \<Rightarrow>
              ([GenCall ReportGenerator prompt],
               Inr \<lparr>upd_messages = Some [HumanMessage (report_text report_structured)],
                    upd_turn = None\<rparr>)))"

subsection \<open>The compiled graph\<close>

text \<open>
  \<open>workflow\<close> has the nodes \<open>start_interview\<close> and \<open>generate_report\<close>, the entry point
  \<open>start_interview\<close>, and the edges \<open>start_interview \<rightarrow> generate_report\<close> and
  \<open>generate_report \<rightarrow> END\<close>. There is no conditional edge. The runtime runs the node
  it is at on the current state, folds the returned dictionary into the state with the
  reducers, and moves along the edge, until it reaches \<open>END\<close>; an exception in a node
  ends the run. It gives up with \<open>GraphRecursionError\<close> after \<open>recursion_limit\<close> steps.
\<close>

definition entry_point :: node where
  "entry_point = start_interview"

fun edge :: "node \<Rightarrow> node" where
  "edge start_interview = generate_report"
| "edge generate_report = END"
| "edge END = END"

fun node_action :: "llm \<Rightarrow> node \<Rightarrow> InterviewState \<Rightarrow> event list \<times> (error + StateUpdate)" where
  "node_action env start_interview s = start_node env s"
| "node_action env generate_report s = report_node env s"
| "node_action env END s = ([], Inr \<lparr>upd_messages = None, upd_turn = None\<rparr>)"

definition recursion_limit :: nat where
  "recursion_limit = 25"

fun run_graph :: "llm \<Rightarrow> nat \<Rightarrow> node \<Rightarrow> InterviewState \<Rightarrow> event list \<times> (error + InterviewState)" where
  "run_graph env fuel END s = ([], Inr s)"
| "run_graph env 0 n s = ([], Inl GraphRecursionError)"
| "run_graph env (Suc fuel) n s =
     (case node_action env n s of
        (evs, Inl e) \<Rightarrow> (NodeRun n s # evs, Inl e)
      | (evs, Inr u) \<Rightarrow>
          (case run_graph env fuel (edge n) (apply_writes s u) of
             (evs', r) \<Rightarrow> (NodeRun n s # evs @ evs', r)))"

text \<open>
  \<open>legal_agent.invoke(inputs)\<close>: the input is written to fresh channels (the messages
  channel starts as the empty list and receives the input through the reducer), then the
  graph runs from the entry point.
\<close>

definition legal_agent_invoke :: "llm \<Rightarrow> InterviewState \<Rightarrow> event list \<times> (error + InterviewState)" where
  "legal_agent_invoke env inputs =
     run_graph env recursion_limit entry_point
       \<lparr>messages = messages_reducer [] (messages inputs), turn = turn inputs\<rparr>"

subsection \<open>The entry point\<close>

text \<open>
  \<open>run_agent\<close> builds \<open>inputs\<close> in one of two branches and then does the same in both:
  \<open>result = legal_agent.invoke(inputs)\<close> and \<open>return result['messages']\<close>.
  \<open>run_agent_inputs\<close> is the \<open>inputs\<close> dictionary, \<open>run_agent_result\<close> the \<open>result\<close>.
\<close>

definition run_agent_inputs :: "string \<Rightarrow> string \<Rightarrow> InterviewState" where
  "run_agent_inputs initial_query user_answers =
     (if user_answers = [] then
        \<lparr>messages = [HumanMessage initial_query], turn = 0\<rparr>
      else
        let full_context =
              ''Initial Query: '' @ initial_query @ ''\<newline>\<newline>User's Answers:\<newline>'' @ user_answers
        in \<lparr>messages = [HumanMessage full_context], turn = 2\<rparr>)"

definition run_agent_result :: "llm \<Rightarrow> string \<Rightarrow> string \<Rightarrow> event list \<times> (error + InterviewState)" where
  "run_agent_result env initial_query user_answers =
     legal_agent_invoke env (run_agent_inputs initial_query user_answers)"

definition run_agent :: "llm \<Rightarrow> string \<Rightarrow> string \<Rightarrow> event list \<times> (error + BaseMessage list)" where
  "run_agent env initial_query user_answers =
     (case run_agent_result env initial_query user_answers of
        (evs, Inl e) \<Rightarrow> (evs, Inl e)
      | (evs, Inr result) \<Rightarrow> (evs, Inr (messages result)))"

text \<open>
  A process that imports the module and then calls \<open>run_agent\<close>: when the import raises,
  nothing of the workflow runs.
\<close>

definition import_and_run :: "string option \<Rightarrow> llm \<Rightarrow> string \<Rightarrow> string \<Rightarrow> event list \<times> (error + BaseMessage list)" where
  "import_and_run api_key env initial_query user_answers =
     (case module_init api_key of
        Inl e \<Rightarrow> ([], Inl e)
      | Inr k \<Rightarrow> run_agent env initial_query user_answers)"

subsection \<open>A sample generation client\<close>

definition sample_questions :: QueryDetails where
  "sample_questions =
     \<lparr>probing_questions =
        [''In which state did this occur?'', ''Who are the parties?'',
         ''Is there a written lease?'']\<rparr>"

definition sample_report :: Report where
  "sample_report = \<lparr>report_text = ''Summary of Facts: the tenant was evicted.''\<rparr>"

definition sample_llm :: llm where
  "sample_llm =
     \<lparr>question_generator = (\<lambda>prompt. Inr sample_questions),
      report_generator = (\<lambda>prompt. Inr sample_report)\<rparr>"

definition sample_query :: string where
  "sample_query = ''My landlord is evicting me without notice in Mumbai''"

definition sample_answers :: string where
  "sample_answers = ''Maharashtra; individual landlord; no written lease''"

text \<open>Two clients whose calls fail: the first on the questions, the second on the report.\<close>

definition failing_llm :: llm where
  "failing_llm =
     \<lparr>question_generator = (\<lambda>prompt. Inl (ProviderError ''503 service unavailable'')),
      report_generator = (\<lambda>prompt. Inr sample_report)\<rparr>"

definition failing_report_llm :: llm where
  "failing_report_llm =
     \<lparr>question_generator = (\<lambda>prompt. Inr sample_questions),
      report_generator = (\<lambda>prompt. Inl (ProviderError ''deadline exceeded''))\<rparr>"



subsection \<open>The state between the two nodes\<close>

text \<open>
  The state after \<open>start_interview\<close>'s return value has been folded into the input
  state: what \<open>generate_report\<close> is run on.
\<close>

definition clarified :: "InterviewState \<Rightarrow> QueryDetails \<Rightarrow> InterviewState" where
  "clarified inputs qd =
     \<lparr>messages = messages inputs @ question_messages (probing_questions qd) @ [system_message],
      turn = 1\<rparr>"

section \<open>Basic facts\<close>

declare str_nat.simps [simp del]

lemma run_graph_step:
  assumes "0 < fuel" and "n \<noteq> END"
  shows "run_graph env fuel n s =
           (case node_action env n s of
              (evs, Inl e) \<Rightarrow> (NodeRun n s # evs, Inl e)
            | (evs, Inr u) \<Rightarrow>
                (case run_graph env (fuel - 1) (edge n) (apply_writes s u) of
                   (evs', r) \<Rightarrow> (NodeRun n s # evs @ evs', r)))"
proof -
  obtain k where "fuel = Suc k"
    using assms(1) by (cases fuel) auto
  with assms(2) show ?thesis
    by (cases n) simp_all
qed

lemma start_node_nonempty:
  assumes "messages state \<noteq> []"
  shows "start_node env state =
           (case question_generator env (start_prompt (content (last (messages state)))) of
              Inl e \<Rightarrow>
                ([GenCall QuestionGenerator (start_prompt (content (last (messages state))))], Inl e)
            | Inr qd \<Rightarrow>
                ([GenCall QuestionGenerator (start_prompt (content (last (messages state))))],
                 Inr \<lparr>upd_messages = Some (question_messages (probing_questions qd) @ [system_message]),
                      upd_turn = Some 1\<rparr>))"
  using assms by (cases "messages state") (auto simp: start_node_def Let_def split: sum.splits)

lemma legal_agent_invoke_question_failure:
  assumes "messages inputs \<noteq> []"
      and "question_generator env (start_prompt (content (last (messages inputs)))) = Inl e"
  shows "legal_agent_invoke env inputs =
           ([NodeRun start_interview \<lparr>messages = messages inputs, turn = turn inputs\<rparr>,
             GenCall QuestionGenerator (start_prompt (content (last (messages inputs))))],
            Inl e)"
  using assms
  by (simp add: legal_agent_invoke_def recursion_limit_def entry_point_def run_graph_step
        messages_reducer_def start_node_nonempty Let_def)

lemma legal_agent_invoke_report_failure:
  assumes "messages inputs \<noteq> []"
      and "question_generator env (start_prompt (content (last (messages inputs)))) = Inr qd"
      and "report_generator env (report_prompt (conversation_history (messages (clarified inputs qd)))) = Inl e"
  shows "legal_agent_invoke env inputs =
           ([NodeRun start_interview \<lparr>messages = messages inputs, turn = turn inputs\<rparr>,
             GenCall QuestionGenerator (start_prompt (content (last (messages inputs)))),
             NodeRun generate_report (clarified inputs qd),
             GenCall ReportGenerator (report_prompt (conversation_history (messages (clarified inputs qd))))],
            Inl e)"
  using assms
  by (simp add: legal_agent_invoke_def recursion_limit_def entry_point_def run_graph_step
        messages_reducer_def start_node_nonempty report_node_def Let_def apply_writes_def clarified_def)

lemma legal_agent_invoke_success:
  assumes "messages inputs \<noteq> []"
      and "question_generator env (start_prompt (content (last (messages inputs)))) = Inr qd"
      and "report_generator env (report_prompt (conversation_history (messages (clarified inputs qd)))) = Inr rep"
  shows "legal_agent_invoke env inputs =
           ([NodeRun start_interview \<lparr>messages = messages inputs, turn = turn inputs\<rparr>,
             GenCall QuestionGenerator (start_prompt (content (last (messages inputs)))),
             NodeRun generate_report (clarified inputs qd),
             GenCall ReportGenerator (report_prompt (conversation_history (messages (clarified inputs qd))))],
            Inr \<lparr>messages = messages inputs @ question_messages (probing_questions qd)
                     @ [system_message] @ [HumanMessage (report_text rep)],
                  turn = 1\<rparr>)"
  using assms
  by (simp add: legal_agent_invoke_def recursion_limit_def entry_point_def run_graph_step
        messages_reducer_def start_node_nonempty report_node_def Let_def apply_writes_def clarified_def)



lemma length_question_messages: "length (question_messages qs) = length qs"
  by (simp add: question_messages_def)

lemma question_messages_sample:
  "question_messages (probing_questions sample_questions) =
     [HumanMessage ''Question 1: In which state did this occur?'',
      HumanMessage ''Question 2: Who are the parties?'',
      HumanMessage ''Question 3: Is there a written lease?'']"
  by code_simp

lemma run_agent_inputs_nonempty: "messages (run_agent_inputs q a) \<noteq> []"
  by (simp add: run_agent_inputs_def Let_def)

lemma legal_agent_invoke_trace:
  assumes "messages inputs \<noteq> []"
      and "question_generator env (start_prompt (content (last (messages inputs)))) = Inr qd"
  shows "fst (legal_agent_invoke env inputs) =
           [NodeRun start_interview \<lparr>messages = messages inputs, turn = turn inputs\<rparr>,
            GenCall QuestionGenerator (start_prompt (content (last (messages inputs)))),
            NodeRun generate_report (clarified inputs qd),
            GenCall ReportGenerator (report_prompt (conversation_history (messages (clarified inputs qd))))]"
proof (cases "report_generator env (report_prompt (conversation_history (messages (clarified inputs qd))))")
  case (Inl e)
  from legal_agent_invoke_report_failure [OF assms Inl] show ?thesis by simp
next
  case (Inr rep)
  from legal_agent_invoke_success [OF assms Inr] show ?thesis by simp
qed

lemma fst_run_agent: "fst (run_agent env q a) = fst (legal_agent_invoke env (run_agent_inputs q a))"
  by (simp add: run_agent_def run_agent_result_def split: prod.splits sum.splits)

lemma snd_run_agent:
  "snd (run_agent env q a) = map_sum id messages (snd (legal_agent_invoke env (run_agent_inputs q a)))"
  by (simp add: run_agent_def run_agent_result_def split: prod.splits sum.splits)

lemma sample_generators:
  "question_generator sample_llm p = Inr sample_questions"
  "report_generator sample_llm p' = Inr sample_report"
  by (simp_all add: sample_llm_def)

lemma run_agent_success:
  assumes "question_generator env (start_prompt (content (last (messages (run_agent_inputs q a))))) = Inr qd"
      and "report_generator env
             (report_prompt (conversation_history (messages (clarified (run_agent_inputs q a) qd)))) = Inr rep"
  shows "snd (run_agent env q a) =
           Inr (messages (run_agent_inputs q a) @ question_messages (probing_questions qd)
                @ [system_message] @ [HumanMessage (report_text rep)])"
  using legal_agent_invoke_success [OF run_agent_inputs_nonempty assms]
  by (simp add: snd_run_agent)

lemma run_agent_sample:
  "snd (run_agent sample_llm q a) =
     Inr (messages (run_agent_inputs q a) @
          [HumanMessage ''Question 1: In which state did this occur?'',
           HumanMessage ''Question 2: Who are the parties?'',
           HumanMessage ''Question 3: Is there a written lease?'',
           system_message,
           HumanMessage (report_text sample_report)])"
  using run_agent_success [of sample_llm q a sample_questions sample_report]
  by (simp add: sample_generators question_messages_sample)

lemma run_agent_inputs_answers:
  assumes "a \<noteq> []"
  shows "run_agent_inputs q a =
           \<lparr>messages = [HumanMessage (''Initial Query: '' @ q @ ''\<newline>\<newline>User's Answers:\<newline>'' @ a)],
            turn = 2\<rparr>"
  using assms by (simp add: run_agent_inputs_def)

lemma sample_answers_nonempty: "sample_answers \<noteq> []"
  by (simp add: sample_answers_def)

lemma run_agent_trace_question_success:
  assumes "question_generator env (start_prompt (content (last (messages (run_agent_inputs q a))))) = Inr qd"
  shows "fst (run_agent env q a) =
           [NodeRun start_interview (run_agent_inputs q a),
            GenCall QuestionGenerator (start_prompt (content (last (messages (run_agent_inputs q a))))),
            NodeRun generate_report (clarified (run_agent_inputs q a) qd),
            GenCall ReportGenerator
              (report_prompt (conversation_history (messages (clarified (run_agent_inputs q a) qd))))]"
  using legal_agent_invoke_trace [OF run_agent_inputs_nonempty assms]
  by (simp add: fst_run_agent)


lemma run_agent_result_success:
  assumes "question_generator env (start_prompt (content (last (messages (run_agent_inputs q a))))) = Inr qd"
      and "report_generator env
             (report_prompt (conversation_history (messages (clarified (run_agent_inputs q a) qd)))) = Inr rep"
  shows "snd (run_agent_result env q a) =
           Inr \<lparr>messages = messages (run_agent_inputs q a) @ question_messages (probing_questions qd)
                     @ [system_message] @ [HumanMessage (report_text rep)],
                turn = 1\<rparr>"
  using legal_agent_invoke_success [OF run_agent_inputs_nonempty assms]
  by (simp add: run_agent_result_def)

lemma clarified_answers:
  assumes "a \<noteq> []"
  shows "clarified (run_agent_inputs q a) qd =
           \<lparr>messages = [HumanMessage (''Initial Query: '' @ q @ ''\<newline>\<newline>User's Answers:\<newline>'' @ a)]
                        @ question_messages (probing_questions qd) @ [system_message],
            turn = 1\<rparr>"
  using assms by (simp add: clarified_def run_agent_inputs_answers)

lemma run_agent_error_origin:
  assumes "snd (run_agent env q a) = Inl e"
  shows "(\<exists>p. question_generator env p = Inl e) \<or> (\<exists>p. report_generator env p = Inl e)"
proof (cases "question_generator env (start_prompt (content (last (messages (run_agent_inputs q a)))))")
  case (Inl e')
  from legal_agent_invoke_question_failure [OF run_agent_inputs_nonempty Inl] assms
  have "e' = e" by (simp add: snd_run_agent)
  with Inl show ?thesis by blast
next
  case (Inr qd)
  show ?thesis
  proof (cases "report_generator env
             (report_prompt (conversation_history (messages (clarified (run_agent_inputs q a) qd))))")
    case (Inl e')
    from legal_agent_invoke_report_failure [OF run_agent_inputs_nonempty Inr Inl] assms
    have "e' = e" by (simp add: snd_run_agent)
    with Inl show ?thesis by blast
  next
    case rep: (Inr rep)
    from run_agent_success [OF Inr rep] assms show ?thesis by simp
  qed
qed

lemma apply_writes_prefix: "prefix (messages s) (messages (apply_writes s u))"
  by (simp add: apply_writes_def messages_reducer_def split: option.splits)



section \<open>Claims\<close>

text \<open>
  The graph has the unconditional edges \<open>start_interview \<rightarrow> generate_report \<rightarrow> END\<close>,
  so both nodes run in every invocation, whatever \<open>user_answers\<close> is. Several of the
  statements below evaluate \<open>run_agent\<close> at the sample client to show what this does to a
  call without answers and to a call with answers.
\<close>

subsection \<open>C1: what a call without answers returns\<close>

text \<open>
  C1 does not hold of the code: with a client that returns three questions, the call
  without answers returns six messages, not four. The original query is the first of them
  and the report, generated in the same call, is the last.
\<close>

theorem run_agent_clarify_call_returns_six_messages:
  "question_generator sample_llm (start_prompt sample_query) = Inr sample_questions
   \<and> length (probing_questions sample_questions) = 3
   \<and> snd (run_agent sample_llm sample_query []) =
       Inr [HumanMessage sample_query,
            HumanMessage ''Question 1: In which state did this occur?'',
            HumanMessage ''Question 2: Who are the parties?'',
            HumanMessage ''Question 3: Is there a written lease?'',
            system_message,
            HumanMessage (report_text sample_report)]
   \<and> length (projr (snd (run_agent sample_llm sample_query [])))
         \<noteq> length (probing_questions sample_questions) + 1
   \<and> hd (projr (snd (run_agent sample_llm sample_query []))) = HumanMessage sample_query"
  by (simp add: run_agent_sample sample_generators run_agent_inputs_def)
     (simp add: sample_questions_def)

subsection \<open>C2: what a call with answers returns\<close>

text \<open>
  C2 does not hold of the code: with non-empty query and answers the call returns six
  messages, not one. Three questions are generated for the combined context, and the
  report is the last message.
\<close>

theorem run_agent_report_call_returns_six_messages:
  "sample_query \<noteq> [] \<and> sample_answers \<noteq> []
   \<and> snd (run_agent sample_llm sample_query sample_answers) =
       Inr [HumanMessage (''Initial Query: '' @ sample_query @ ''\<newline>\<newline>User's Answers:\<newline>'' @ sample_answers),
            HumanMessage ''Question 1: In which state did this occur?'',
            HumanMessage ''Question 2: Who are the parties?'',
            HumanMessage ''Question 3: Is there a written lease?'',
            system_message,
            HumanMessage (report_text sample_report)]
   \<and> length (projr (snd (run_agent sample_llm sample_query sample_answers))) \<noteq> 1"
  by (simp add: run_agent_sample run_agent_inputs_answers [OF sample_answers_nonempty] sample_answers_nonempty)
     (simp add: sample_query_def)

subsection \<open>C3: which nodes run and how many generation calls are made\<close>

text \<open>
  C3 does not hold of the code: with the sample client both nodes run and both generators
  are called, on the call without answers and on the call with answers alike.
\<close>

theorem run_agent_runs_both_nodes_on_every_call:
  "map fst (nodes_run (fst (run_agent sample_llm sample_query []))) = [start_interview, generate_report]
   \<and> map fst (generation_calls (fst (run_agent sample_llm sample_query [])))
       = [QuestionGenerator, ReportGenerator]
   \<and> sample_answers \<noteq> []
   \<and> map fst (nodes_run (fst (run_agent sample_llm sample_query sample_answers)))
       = [start_interview, generate_report]
   \<and> map fst (generation_calls (fst (run_agent sample_llm sample_query sample_answers)))
       = [QuestionGenerator, ReportGenerator]
   \<and> length (generation_calls (fst (run_agent sample_llm sample_query []))) \<noteq> 1"
  by (simp add: run_agent_trace_question_success [where qd = sample_questions] sample_generators
        sample_answers_nonempty)

subsection \<open>C4: the question messages\<close>




subsection \<open>C5: how the answers select the path\<close>

text \<open>
  C5 does not hold of the code: \<open>run_agent\<close> builds the combined message
  \<open>Initial Query: {initial_query}\<close>, two newlines, \<open>User's Answers:\<close>, a newline and
  \<open>{user_answers}\<close> with turn 2, as the claim says, but the graph then runs the Clarify
  node on it: the question generator is called with the combined message as the user's
  query. Neither call runs one node only.
\<close>

theorem run_agent_report_call_starts_at_clarify:
  "sample_answers \<noteq> []
   \<and> nodes_run (fst (run_agent sample_llm sample_query sample_answers)) ! 0 =
       (start_interview,
        \<lparr>messages = [HumanMessage (''Initial Query: '' @ sample_query
                                   @ ''\<newline>\<newline>User's Answers:\<newline>'' @ sample_answers)],
         turn = 2\<rparr>)
   \<and> generation_calls (fst (run_agent sample_llm sample_query sample_answers)) ! 0 =
       (QuestionGenerator,
        start_prompt (''Initial Query: '' @ sample_query
                      @ ''\<newline>\<newline>User's Answers:\<newline>'' @ sample_answers))
   \<and> map fst (nodes_run (fst (run_agent sample_llm sample_query sample_answers)))
       \<noteq> [generate_report]
   \<and> map fst (nodes_run (fst (run_agent sample_llm sample_query []))) \<noteq> [start_interview]"
  by (simp add: run_agent_trace_question_success [where qd = sample_questions] sample_generators
        sample_answers_nonempty run_agent_inputs_answers HumanMessage_def)

subsection \<open>C6: a failing generation call\<close>

text \<open>
  C6: when the call to the question generator raises \<open>e\<close>, \<open>run_agent\<close> raises \<open>e\<close>; when
  that call succeeds and the call to the report generator raises \<open>e\<close>, \<open>run_agent\<close> raises
  \<open>e\<close>; and whenever \<open>run_agent\<close> returns a sequence, both calls succeeded and the sequence
  is the full one, never an empty or a partial one.
\<close>

theorem run_agent_propagates_generation_error:
  "(question_generator env (start_prompt (content (last (messages (run_agent_inputs q a))))) = Inl e
      \<longrightarrow> snd (run_agent env q a) = Inl e)
   \<and> (question_generator env (start_prompt (content (last (messages (run_agent_inputs q a))))) = Inr qd
        \<and> report_generator env
             (report_prompt (conversation_history (messages (clarified (run_agent_inputs q a) qd)))) = Inl e
      \<longrightarrow> snd (run_agent env q a) = Inl e)
   \<and> (snd (run_agent env q a) = Inr ms
      \<longrightarrow> (\<exists>qd rep.
             question_generator env (start_prompt (content (last (messages (run_agent_inputs q a))))) = Inr qd
             \<and> report_generator env
                  (report_prompt (conversation_history (messages (clarified (run_agent_inputs q a) qd))))
                 = Inr rep
             \<and> ms = messages (run_agent_inputs q a) @ question_messages (probing_questions qd)
                      @ [system_message] @ [HumanMessage (report_text rep)]
             \<and> length ms = length (probing_questions qd) + 3))"
proof (intro conjI impI)
  assume "question_generator env (start_prompt (content (last (messages (run_agent_inputs q a))))) = Inl e"
  from legal_agent_invoke_question_failure [OF run_agent_inputs_nonempty this]
  show "snd (run_agent env q a) = Inl e"
    by (simp add: snd_run_agent)
next
  assume "question_generator env (start_prompt (content (last (messages (run_agent_inputs q a))))) = Inr qd
        \<and> report_generator env
             (report_prompt (conversation_history (messages (clarified (run_agent_inputs q a) qd)))) = Inl e"
  then have h: "question_generator env (start_prompt (content (last (messages (run_agent_inputs q a))))) = Inr qd"
    "report_generator env
             (report_prompt (conversation_history (messages (clarified (run_agent_inputs q a) qd)))) = Inl e"
    by simp_all
  from legal_agent_invoke_report_failure [OF run_agent_inputs_nonempty h]
  show "snd (run_agent env q a) = Inl e"
    by (simp add: snd_run_agent)
next
  assume ok: "snd (run_agent env q a) = Inr ms"
  let ?p1 = "start_prompt (content (last (messages (run_agent_inputs q a))))"
  show "\<exists>qd rep.
             question_generator env ?p1 = Inr qd
             \<and> report_generator env
                  (report_prompt (conversation_history (messages (clarified (run_agent_inputs q a) qd))))
                 = Inr rep
             \<and> ms = messages (run_agent_inputs q a) @ question_messages (probing_questions qd)
                      @ [system_message] @ [HumanMessage (report_text rep)]
             \<and> length ms = length (probing_questions qd) + 3"
  proof (cases "question_generator env ?p1")
    case (Inl e')
    from legal_agent_invoke_question_failure [OF run_agent_inputs_nonempty Inl] ok
    show ?thesis by (simp add: snd_run_agent)
  next
    case (Inr qd')
    let ?p2 = "report_prompt (conversation_history (messages (clarified (run_agent_inputs q a) qd')))"
    show ?thesis
    proof (cases "report_generator env ?p2")
      case (Inl e')
      from legal_agent_invoke_report_failure [OF run_agent_inputs_nonempty Inr Inl] ok
      show ?thesis by (simp add: snd_run_agent)
    next
      case rep: (Inr rep')
      from run_agent_success [OF Inr rep] ok
      have "ms = messages (run_agent_inputs q a) @ question_messages (probing_questions qd')
                      @ [system_message] @ [HumanMessage (report_text rep')]"
        by simp
      moreover have "length (messages (run_agent_inputs q a)) = 1"
        by (simp add: run_agent_inputs_def Let_def)
      ultimately show ?thesis
        using Inr rep by (simp add: length_question_messages)
    qed
  qed
qed

text \<open>
  C6 at a client failing on the questions, a client failing on the report, and the
  sample client.
\<close>

theorem run_agent_propagates_generation_error_witness:
  "question_generator failing_llm
     (start_prompt (content (last (messages (run_agent_inputs sample_query []))))) =
     Inl (ProviderError ''503 service unavailable'')
   \<and> snd (run_agent failing_llm sample_query []) = Inl (ProviderError ''503 service unavailable'')
   \<and> question_generator failing_report_llm
       (start_prompt (content (last (messages (run_agent_inputs sample_query sample_answers))))) =
       Inr sample_questions
   \<and> report_generator failing_report_llm
       (report_prompt (conversation_history
          (messages (clarified (run_agent_inputs sample_query sample_answers) sample_questions)))) =
       Inl (ProviderError ''deadline exceeded'')
   \<and> snd (run_agent failing_report_llm sample_query sample_answers) =
       Inl (ProviderError ''deadline exceeded'')
   \<and> snd (run_agent sample_llm sample_query []) =
       Inr (messages (run_agent_inputs sample_query []) @
            [HumanMessage ''Question 1: In which state did this occur?'',
             HumanMessage ''Question 2: Who are the parties?'',
             HumanMessage ''Question 3: Is there a written lease?'',
             system_message,
             HumanMessage (report_text sample_report)])
   \<and> length (messages (run_agent_inputs sample_query []) @
            [HumanMessage ''Question 1: In which state did this occur?'',
             HumanMessage ''Question 2: Who are the parties?'',
             HumanMessage ''Question 3: Is there a written lease?'',
             system_message,
             HumanMessage (report_text sample_report)]) =
       length (probing_questions sample_questions) + 3"
proof -
  have a: "snd (run_agent failing_llm sample_query []) = Inl (ProviderError ''503 service unavailable'')"
    using run_agent_propagates_generation_error
            [of failing_llm sample_query "[]" "ProviderError ''503 service unavailable''"]
    by (simp add: failing_llm_def)
  have b: "snd (run_agent failing_report_llm sample_query sample_answers) =
             Inl (ProviderError ''deadline exceeded'')"
    using run_agent_propagates_generation_error
            [of failing_report_llm sample_query sample_answers "ProviderError ''deadline exceeded''"
                sample_questions]
    by (simp add: failing_report_llm_def)
  have c: "snd (run_agent sample_llm sample_query []) =
       Inr (messages (run_agent_inputs sample_query []) @
            [HumanMessage ''Question 1: In which state did this occur?'',
             HumanMessage ''Question 2: Who are the parties?'',
             HumanMessage ''Question 3: Is there a written lease?'',
             system_message,
             HumanMessage (report_text sample_report)])"
    by (rule run_agent_sample)
  from run_agent_propagates_generation_error
         [of sample_llm sample_query "[]" undefined undefined
             "messages (run_agent_inputs sample_query []) @
            [HumanMessage ''Question 1: In which state did this occur?'',
             HumanMessage ''Question 2: Who are the parties?'',
             HumanMessage ''Question 3: Is there a written lease?'',
             system_message,
             HumanMessage (report_text sample_report)]"] c
  have d: "length (messages (run_agent_inputs sample_query []) @
            [HumanMessage ''Question 1: In which state did this occur?'',
             HumanMessage ''Question 2: Who are the parties?'',
             HumanMessage ''Question 3: Is there a written lease?'',
             system_message,
             HumanMessage (report_text sample_report)]) =
       length (probing_questions sample_questions) + 3"
    by (auto simp: sample_generators)
  show ?thesis
    using a b c d by (simp add: failing_llm_def failing_report_llm_def)
qed

subsection \<open>C7: the turn counter\<close>

text \<open>
  C7 does not hold of the code: a call with answers starts with turn 2 and ends, with the
  sample client, in a final state whose turn is 1, not 2.
\<close>

theorem run_agent_report_call_ends_with_turn_one:
  "sample_answers \<noteq> []
   \<and> turn (run_agent_inputs sample_query sample_answers) = 2
   \<and> \<not> isl (snd (run_agent_result sample_llm sample_query sample_answers))
   \<and> turn (projr (snd (run_agent_result sample_llm sample_query sample_answers))) = 1
   \<and> turn (projr (snd (run_agent_result sample_llm sample_query sample_answers))) \<noteq> 2"
  using run_agent_result_success [of sample_llm sample_query sample_answers sample_questions sample_report]
  by (simp add: sample_generators sample_answers_nonempty run_agent_inputs_answers)

subsection \<open>C8: the transcript the Report node renders\<close>

text \<open>
  C8 does not hold of the code: on a call with answers and the sample client, the state
  the Report node runs on holds five messages, not one.
\<close>

theorem report_node_runs_on_five_messages:
  "sample_answers \<noteq> []
   \<and> fst (nodes_run (fst (run_agent sample_llm sample_query sample_answers)) ! 1) = generate_report
   \<and> length (messages (snd (nodes_run (fst (run_agent sample_llm sample_query sample_answers)) ! 1))) = 5
   \<and> length (messages (snd (nodes_run (fst (run_agent sample_llm sample_query sample_answers)) ! 1))) \<noteq> 1"
  by (simp add: run_agent_trace_question_success [where qd = sample_questions] sample_generators
        sample_answers_nonempty clarified_answers question_messages_sample)

subsection \<open>C9: the API key is checked when the module is loaded\<close>

text \<open>
  C9: when \<open>GOOGLE_API_KEY\<close> is absent (unset, or set to the empty string) loading the
  module raises \<open>ValueError\<close>, and a process that imports the module fails with it before
  any node runs or any generation call is made. When the key is present the import
  succeeds, a call is just \<open>run_agent\<close>, which never looks at the key, and every error
  such a call raises is one that a generation call raised.
\<close>

theorem api_key_checked_at_import:
  "module_init None = Inl (ValueError ''GOOGLE_API_KEY environment variable not set.'')
   \<and> module_init (Some []) = Inl (ValueError ''GOOGLE_API_KEY environment variable not set.'')
   \<and> import_and_run None env q a = ([], Inl (ValueError ''GOOGLE_API_KEY environment variable not set.''))
   \<and> import_and_run (Some []) env q a
       = ([], Inl (ValueError ''GOOGLE_API_KEY environment variable not set.''))
   \<and> (k \<noteq> [] \<longrightarrow>
        module_init (Some k) = Inr k
        \<and> import_and_run (Some k) env q a = run_agent env q a
        \<and> (snd (import_and_run (Some k) env q a) = Inl e \<longrightarrow>
             (\<exists>p. question_generator env p = Inl e) \<or> (\<exists>p. report_generator env p = Inl e)))"
proof -
  have "import_and_run (Some k) env q a = run_agent env q a" if "k \<noteq> []"
    using that by (simp add: import_and_run_def module_init_def)
  then show ?thesis
    using run_agent_error_origin [of env q a e]
    by (auto simp: module_init_def import_and_run_def)
qed

text \<open>
  C9 at a present key with a client whose first call fails, and at an absent key.
\<close>

theorem api_key_checked_at_import_witness:
  "''AIza-key'' \<noteq> []
   \<and> module_init (Some ''AIza-key'') = Inr ''AIza-key''
   \<and> import_and_run (Some ''AIza-key'') failing_llm sample_query [] = run_agent failing_llm sample_query []
   \<and> snd (import_and_run (Some ''AIza-key'') failing_llm sample_query [])
       = Inl (ProviderError ''503 service unavailable'')
   \<and> question_generator failing_llm [] = Inl (ProviderError ''503 service unavailable'')
   \<and> import_and_run None failing_llm sample_query []
       = ([], Inl (ValueError ''GOOGLE_API_KEY environment variable not set.''))"
proof -
  have f: "snd (run_agent failing_llm sample_query []) = Inl (ProviderError ''503 service unavailable'')"
    using legal_agent_invoke_question_failure
            [OF run_agent_inputs_nonempty, of failing_llm sample_query "[]"
                "ProviderError ''503 service unavailable''"]
    by (simp add: snd_run_agent failing_llm_def)
  from api_key_checked_at_import
         [of failing_llm sample_query "[]" "''AIza-key''" "ProviderError ''503 service unavailable''"]
  show ?thesis
    using f by (simp add: failing_llm_def)
qed

subsection \<open>C10: the message history only grows\<close>

text \<open>
  C10: folding a node's return value into the state keeps the messages already there as
  a prefix, in their order. So whenever \<open>run_agent\<close> returns, the returned sequence begins
  with the caller-supplied input message at index 0 (the query, or the combined query and
  answers), and the messages every node was run on are a prefix of what is returned.
\<close>

theorem messages_append_only:
  "prefix (messages s) (messages (apply_writes s u))
   \<and> (snd (run_agent env q a) = Inr ms \<longrightarrow>
        prefix (messages (run_agent_inputs q a)) ms
        \<and> ms ! 0 = HumanMessage (if a = [] then q
                                  else ''Initial Query: '' @ q @ ''\<newline>\<newline>User's Answers:\<newline>'' @ a)
        \<and> (\<forall>ns \<in> set (nodes_run (fst (run_agent env q a))). prefix (messages (snd ns)) ms))"
proof (intro conjI impI)
  show "prefix (messages s) (messages (apply_writes s u))"
    by (rule apply_writes_prefix)
next
  assume ok: "snd (run_agent env q a) = Inr ms"
  let ?p1 = "start_prompt (content (last (messages (run_agent_inputs q a))))"
  obtain qd where qd: "question_generator env ?p1 = Inr qd"
  proof (cases "question_generator env ?p1")
    case (Inl e)
    from legal_agent_invoke_question_failure [OF run_agent_inputs_nonempty Inl] ok
    show ?thesis by (simp add: snd_run_agent)
  next
    case (Inr x)
    then show ?thesis by (rule that)
  qed
  let ?p2 = "report_prompt (conversation_history (messages (clarified (run_agent_inputs q a) qd)))"
  obtain rep where rep: "report_generator env ?p2 = Inr rep"
  proof (cases "report_generator env ?p2")
    case (Inl e)
    from legal_agent_invoke_report_failure [OF run_agent_inputs_nonempty qd Inl] ok
    show ?thesis by (simp add: snd_run_agent)
  next
    case (Inr x)
    then show ?thesis by (rule that)
  qed
  from run_agent_success [OF qd rep] ok
  have ms: "ms = messages (run_agent_inputs q a) @ question_messages (probing_questions qd)
                 @ [system_message] @ [HumanMessage (report_text rep)]"
    by simp
  show "prefix (messages (run_agent_inputs q a)) ms"
    by (simp add: ms)
  show "ms ! 0 = HumanMessage (if a = [] then q
                                  else ''Initial Query: '' @ q @ ''\<newline>\<newline>User's Answers:\<newline>'' @ a)"
    by (simp add: ms run_agent_inputs_def Let_def)
  show "\<forall>ns \<in> set (nodes_run (fst (run_agent env q a))). prefix (messages (snd ns)) ms"
    by (simp add: run_agent_trace_question_success [OF qd] ms clarified_def)
qed

text \<open>
  C10 at the sample client on a call without answers.
\<close>

theorem messages_append_only_witness:
  "snd (run_agent sample_llm sample_query []) =
     Inr [HumanMessage sample_query,
          HumanMessage ''Question 1: In which state did this occur?'',
          HumanMessage ''Question 2: Who are the parties?'',
          HumanMessage ''Question 3: Is there a written lease?'',
          system_message,
          HumanMessage (report_text sample_report)]
   \<and> prefix (messages (run_agent_inputs sample_query []))
        [HumanMessage sample_query,
          HumanMessage ''Question 1: In which state did this occur?'',
          HumanMessage ''Question 2: Who are the parties?'',
          HumanMessage ''Question 3: Is there a written lease?'',
          system_message,
          HumanMessage (report_text sample_report)]
   \<and> set (nodes_run (fst (run_agent sample_llm sample_query []))) \<noteq> {}"
proof -
  have r: "snd (run_agent sample_llm sample_query []) =
     Inr [HumanMessage sample_query,
          HumanMessage ''Question 1: In which state did this occur?'',
          HumanMessage ''Question 2: Who are the parties?'',
          HumanMessage ''Question 3: Is there a written lease?'',
          system_message,
          HumanMessage (report_text sample_report)]"
    by (simp add: run_agent_sample run_agent_inputs_def)
  have t: "set (nodes_run (fst (run_agent sample_llm sample_query []))) \<noteq> {}"
    by (simp add: run_agent_trace_question_success [where qd = sample_questions] sample_generators)
  from messages_append_only
         [of "run_agent_inputs sample_query []"
             "\<lparr>upd_messages = Some [system_message], upd_turn = None\<rparr>"
             sample_llm sample_query "[]"
         "[HumanMessage sample_query,
          HumanMessage ''Question 1: In which state did this occur?'',
          HumanMessage ''Question 2: Who are the parties?'',
          HumanMessage ''Question 3: Is there a written lease?'',
          system_message,
          HumanMessage (report_text sample_report)]"] r t
  show ?thesis by simp
qed

end
